theory Spec2Isabelle
  imports Complex_Main
begin

section \<open>JavaScript values\<close>

text \<open>
  A JavaScript \<open>number\<close>. Finite doubles are modelled by the real number they denote
  (rounding, overflow and the sign of zero are not modelled); \<open>NaN\<close> and the two
  infinities are kept, because the control flow of the client depends on them
  (\<open>Number.isFinite\<close>, truthiness, comparisons that are false on \<open>NaN\<close>).
\<close>

datatype jsnum = Finite real | NaN | PosInfinity | NegInfinity


fun js_le :: "jsnum \<Rightarrow> jsnum \<Rightarrow> bool" where
  "js_le (Finite a) (Finite b) = (a \<le> b)"
| "js_le (Finite a) PosInfinity = True"
| "js_le NegInfinity (Finite b) = True"
| "js_le NegInfinity PosInfinity = True"
| "js_le PosInfinity PosInfinity = True"
| "js_le NegInfinity NegInfinity = True"
| "js_le _ _ = False"

definition js_ge :: "jsnum \<Rightarrow> jsnum \<Rightarrow> bool" where
  "js_ge a b = js_le b a"

text \<open>The product \<open>a * b\<close> of two numbers.\<close>

fun js_sign :: "jsnum \<Rightarrow> int" where
  "js_sign (Finite a) = (if a < 0 then -1 else if a = 0 then 0 else 1)"
| "js_sign PosInfinity = 1"
| "js_sign NegInfinity = -1"
| "js_sign NaN = 0"

fun js_mul :: "jsnum \<Rightarrow> jsnum \<Rightarrow> jsnum" where
  "js_mul (Finite a) (Finite b) = Finite (a * b)"
| "js_mul NaN _ = NaN"
| "js_mul _ NaN = NaN"
| "js_mul a b =
     (if js_sign a * js_sign b = 0 then NaN
      else if js_sign a * js_sign b < 0 then NegInfinity else PosInfinity)"


fun truthy_num :: "jsnum \<Rightarrow> bool" where
  "truthy_num (Finite a) = (a \<noteq> 0)"
| "truthy_num NaN = False"
| "truthy_num _ = True"

text \<open>
  Data values: what a query map, a request body or a decoded JSON payload holds.
  Numbers in data are integers here; objects are their entries in
  \<open>Object.entries\<close> order.
\<close>

datatype jsv =
    JUndefined
  | JNull
  | JBool bool
  | JNum int
  | JStr string
  | JArr "jsv list"
  | JObj "(string \<times> jsv) list"

fun nullish :: "jsv \<Rightarrow> bool" where
  "nullish JUndefined = True"
| "nullish JNull = True"
| "nullish _ = False"

fun truthy :: "jsv \<Rightarrow> bool" where
  "truthy JUndefined = False"
| "truthy JNull = False"
| "truthy (JBool b) = b"
| "truthy (JNum n) = (n \<noteq> 0)"
| "truthy (JStr s) = (s \<noteq> [])"
| "truthy (JArr xs) = True"
| "truthy (JObj kvs) = True"

text \<open>The operator \<open>a ?? b\<close> on data values.\<close>

definition coalesce :: "jsv \<Rightarrow> jsv \<Rightarrow> jsv" where
  "coalesce a b = (if nullish a then b else a)"

text \<open>
  Optional property access \<open>v?.k\<close> for a key that no primitive or array carries
  (\<open>message\<close>, \<open>error\<close>, \<open>code\<close>, \<open>details\<close>): the entry of an object, and
  \<open>undefined\<close> on everything else.
\<close>

fun get_prop :: "jsv \<Rightarrow> string \<Rightarrow> jsv" where
  "get_prop (JObj kvs) k = (case map_of kvs k of Some v \<Rightarrow> v | None \<Rightarrow> JUndefined)"
| "get_prop _ k = JUndefined"

subsection \<open>String coercion\<close>

definition digit_char :: "nat \<Rightarrow> char" where
  "digit_char d = ''0123456789'' ! d"

fun nat_digits :: "nat \<Rightarrow> string" where
  "nat_digits n = (if n < 10 then [digit_char n] else nat_digits (n div 10) @ [digit_char (n mod 10)])"

declare nat_digits.simps [simp del]

definition int_digits :: "int \<Rightarrow> string" where
  "int_digits i = (if i < 0 then CHR ''-'' # nat_digits (nat (- i)) else nat_digits (nat i))"

fun join :: "string \<Rightarrow> string list \<Rightarrow> string" where
  "join sep [] = []"
| "join sep [x] = x"
| "join sep (x # y # ys) = x @ sep @ join sep (y # ys)"

text \<open>
  \<open>String(v)\<close>. An array is its elements joined by commas, with \<open>null\<close> and
  \<open>undefined\<close> elements giving the empty string; an integer is written in decimal
  (JavaScript switches to exponent notation from \<open>10^21\<close>, which is not modelled).
\<close>

fun String_js :: "jsv \<Rightarrow> string" where
  "String_js JUndefined = ''undefined''"
| "String_js JNull = ''null''"
| "String_js (JBool b) = (if b then ''true'' else ''false'')"
| "String_js (JNum n) = int_digits n"
| "String_js (JStr s) = s"
| "String_js (JArr xs) = join '','' (map (\<lambda>x. if nullish x then [] else String_js x) xs)"
| "String_js (JObj kvs) = ''[object Object]''"

section \<open>Error taxonomy (errors.ts)\<close>

text \<open>
  The classes of the hierarchy: \<open>HTTPError\<close> and \<open>ValidationError\<close> extend
  \<open>MailrifyError\<close>; \<open>AuthError\<close> and \<open>RateLimitError\<close> extend \<open>HTTPError\<close>.
\<close>

datatype err_class =
    MailrifyError_class
  | HTTPError_class
  | ValidationError_class
  | AuthError_class
  | RateLimitError_class

text \<open>
  A thrown value: an instance of the hierarchy with its fields, an \<open>Error\<close> from
  outside the hierarchy (a \<open>TypeError\<close> of the platform, an abort, a plain
  \<open>Error\<close>), or a value that is no \<open>Error\<close> at all.
\<close>

datatype thrown =
    Typed (err_cls: err_class) (err_message: string) (err_status: "int option")
      (err_code: jsv) (err_details: jsv) (err_requestId: "string option")
      (err_retryAfter: "jsnum option") (err_cause: "thrown option")
  | ForeignError (foreign_name: string) (foreign_message: string)
  | NonError (thrown_value: jsv)

text \<open>\<open>MailrifyErrorOptions\<close>, with the \<open>retryAfter\<close> that \<open>RateLimitError\<close> adds.\<close>

record MailrifyErrorOptions =
  opt_status :: "int option"
  opt_code :: jsv
  opt_details :: jsv
  opt_requestId :: "string option"
  opt_cause :: "thrown option"
  opt_retryAfter :: "jsnum option"

text \<open>The default argument \<open>options = {}\<close>.\<close>

definition no_options :: MailrifyErrorOptions where
  "no_options = \<lparr>opt_status = None, opt_code = JUndefined, opt_details = JUndefined,
     opt_requestId = None, opt_cause = None, opt_retryAfter = None\<rparr>"

fun truthy_thrown :: "thrown \<Rightarrow> bool" where
  "truthy_thrown (NonError v) = truthy v"
| "truthy_thrown _ = True"

text \<open>
  The constructor of \<open>MailrifyError\<close>, run by every subclass through \<open>super\<close>; the
  class tag stands for the prototype and the \<open>name\<close> field of the instance.
\<close>

definition construct :: "err_class \<Rightarrow> string \<Rightarrow> MailrifyErrorOptions \<Rightarrow> thrown" where
  "construct c msg opts =
     Typed c msg (opt_status opts) (opt_code opts) (opt_details opts) (opt_requestId opts) None
       (case opt_cause opts of
          None \<Rightarrow> None
        | Some x \<Rightarrow> if truthy_thrown x then Some x else None)"

definition MailrifyError :: "string \<Rightarrow> MailrifyErrorOptions \<Rightarrow> thrown" where
  "MailrifyError msg opts = construct MailrifyError_class msg opts"

definition HTTPError :: "string \<Rightarrow> MailrifyErrorOptions \<Rightarrow> thrown" where
  "HTTPError msg opts = construct HTTPError_class msg opts"

definition ValidationError :: "string \<Rightarrow> MailrifyErrorOptions \<Rightarrow> thrown" where
  "ValidationError msg opts =
     construct ValidationError_class msg
       (opts\<lparr>opt_status := Some (case opt_status opts of None \<Rightarrow> 400 | Some s \<Rightarrow> s)\<rparr>)"

definition AuthError :: "string \<Rightarrow> MailrifyErrorOptions \<Rightarrow> thrown" where
  "AuthError msg opts =
     construct AuthError_class msg
       (opts\<lparr>opt_status := Some (case opt_status opts of None \<Rightarrow> 401 | Some s \<Rightarrow> s)\<rparr>)"

definition RateLimitError :: "string \<Rightarrow> MailrifyErrorOptions \<Rightarrow> thrown" where
  "RateLimitError msg opts =
     (case construct RateLimitError_class msg
             (opts\<lparr>opt_status := Some (case opt_status opts of None \<Rightarrow> 429 | Some s \<Rightarrow> s)\<rparr>) of
        Typed c m st cd dt rid ra cs \<Rightarrow> Typed c m st cd dt rid (opt_retryAfter opts) cs
      | other \<Rightarrow> other)"

text \<open>The \<open>instanceof\<close> tests the client makes.\<close>

fun instanceof_RateLimitError :: "thrown \<Rightarrow> bool" where
  "instanceof_RateLimitError (Typed c m st cd dt rid ra cs) = (c = RateLimitError_class)"
| "instanceof_RateLimitError _ = False"

fun instanceof_HTTPError :: "thrown \<Rightarrow> bool" where
  "instanceof_HTTPError (Typed c m st cd dt rid ra cs) =
     (c = HTTPError_class \<or> c = AuthError_class \<or> c = RateLimitError_class)"
| "instanceof_HTTPError _ = False"

fun instanceof_ValidationError :: "thrown \<Rightarrow> bool" where
  "instanceof_ValidationError (Typed c m st cd dt rid ra cs) = (c = ValidationError_class)"
| "instanceof_ValidationError _ = False"

fun instanceof_MailrifyError :: "thrown \<Rightarrow> bool" where
  "instanceof_MailrifyError (Typed c m st cd dt rid ra cs) = True"
| "instanceof_MailrifyError _ = False"

fun instanceof_Error :: "thrown \<Rightarrow> bool" where
  "instanceof_Error (NonError v) = False"
| "instanceof_Error _ = True"

text \<open>The field \<open>error.status\<close> of an instance of the hierarchy.\<close>

fun status_of :: "thrown \<Rightarrow> int option" where
  "status_of (Typed c m st cd dt rid ra cs) = st"
| "status_of _ = None"

fun retryAfter_of :: "thrown \<Rightarrow> jsnum option" where
  "retryAfter_of (Typed c m st cd dt rid ra cs) = ra"
| "retryAfter_of _ = None"

section \<open>Strings\<close>

text \<open>
  Strings are ASCII here. White space is what \<open>String.prototype.trim\<close> and
  \<open>parseInt\<close> skip within ASCII: tab, line feed, vertical tab, form feed, carriage
  return and space.
\<close>

definition is_ws :: "char \<Rightarrow> bool" where
  "is_ws c = (of_char c \<in> {9::nat, 10, 11, 12, 13, 32})"


definition is_digit :: "char \<Rightarrow> bool" where
  "is_digit c = (48 \<le> (of_char c :: nat) \<and> (of_char c :: nat) \<le> 57)"

definition lower_char :: "char \<Rightarrow> char" where
  "lower_char c =
     (case map_of (zip ''ABCDEFGHIJKLMNOPQRSTUVWXYZ'' ''abcdefghijklmnopqrstuvwxyz'') c of
        None \<Rightarrow> c
      | Some l \<Rightarrow> l)"

definition toLowerCase :: "string \<Rightarrow> string" where
  "toLowerCase s = map lower_char s"

definition startsWith :: "string \<Rightarrow> string \<Rightarrow> bool" where
  "startsWith s p = (take (length p) s = p)"

fun str_includes :: "string \<Rightarrow> string \<Rightarrow> bool" where
  "str_includes [] sub = (sub = [])"
| "str_includes (c # cs) sub = (startsWith (c # cs) sub \<or> str_includes cs sub)"

text \<open>\<open>s.replace(/\/+$/, '')\<close> and \<open>s.replace(/\/*$/, '')\<close>: the trailing slashes removed.\<close>

definition strip_trailing_slashes :: "string \<Rightarrow> string" where
  "strip_trailing_slashes s = rev (dropWhile (\<lambda>c. c = CHR ''/'') (rev s))"

text \<open>\<open>s.replace(/\/{2,}/g, '/')\<close>: every run of slashes becomes one slash.\<close>

fun collapse_slashes :: "string \<Rightarrow> string" where
  "collapse_slashes (a # b # cs) =
     (if a = CHR ''/'' \<and> b = CHR ''/'' then collapse_slashes (b # cs)
      else a # collapse_slashes (b # cs))"
| "collapse_slashes cs = cs"

text \<open>
  \<open>Number.parseInt(s, 10)\<close>: leading white space is skipped, a sign is read, then the
  longest run of decimal digits; no digit gives \<open>NaN\<close>, and what follows the digits
  is ignored.
\<close>

definition digits_value :: "string \<Rightarrow> nat" where
  "digits_value ds = foldl (\<lambda>acc c. 10 * acc + (of_char c - 48)) 0 ds"

definition parseInt10 :: "string \<Rightarrow> jsnum" where
  "parseInt10 s =
     (let s1 = dropWhile is_ws s;
          neg = (s1 \<noteq> [] \<and> hd s1 = CHR ''-'');
          s2 = (if s1 \<noteq> [] \<and> (hd s1 = CHR ''-'' \<or> hd s1 = CHR ''+'') then tl s1 else s1);
          ds = takeWhile is_digit s2
      in if ds = [] then NaN
         else Finite (if neg then - real (digits_value ds) else real (digits_value ds)))"

section \<open>Platform objects\<close>

text \<open>
  A \<open>Headers\<close> object: a map from lower-cased names to values, so that \<open>set\<close>,
  \<open>get\<close> and \<open>has\<close> compare names without regard to case. The platform's checks
  and trimming of header values are not modelled.
\<close>

type_synonym Headers = "string \<rightharpoonup> string"

definition headers_set :: "Headers \<Rightarrow> string \<Rightarrow> string \<Rightarrow> Headers" where
  "headers_set h k v = h(toLowerCase k \<mapsto> v)"

definition headers_get :: "Headers \<Rightarrow> string \<Rightarrow> string option" where
  "headers_get h k = h (toLowerCase k)"

definition headers_has :: "Headers \<Rightarrow> string \<Rightarrow> bool" where
  "headers_has h k = (h (toLowerCase k) \<noteq> None)"

text \<open>Setting the entries of a plain object on a \<open>Headers\<close>, in \<open>Object.entries\<close> order.\<close>

definition set_all :: "Headers \<Rightarrow> (string \<times> string) list \<Rightarrow> Headers" where
  "set_all h kvs = foldl (\<lambda>acc kv. headers_set acc (fst kv) (snd kv)) h kvs"

text \<open>
  A parsed \<open>URL\<close>: what stands before the path (scheme, host, port), the path, the
  list behind \<open>searchParams\<close> and the fragment. Assigning \<open>''\<close> to \<open>search\<close>
  empties the list. The platform's own normalisation of an assigned path
  (percent-encoding, dot segments) is not modelled.
\<close>

record URL =
  origin :: string
  pathname :: string
  searchParams :: "(string \<times> string) list"
  hash :: string

definition searchParams_append :: "(string \<times> string) list \<Rightarrow> string \<Rightarrow> string \<Rightarrow> (string \<times> string) list" where
  "searchParams_append ps k v = ps @ [(k, v)]"

text \<open>
  \<open>URLSearchParams.set\<close>: the first pair named \<open>k\<close> takes the value and the other
  pairs named \<open>k\<close> go; with no such pair, the pair is appended.
\<close>

fun searchParams_set :: "(string \<times> string) list \<Rightarrow> string \<Rightarrow> string \<Rightarrow> (string \<times> string) list" where
  "searchParams_set [] k v = [(k, v)]"
| "searchParams_set (p # ps) k v =
     (if fst p = k then (k, v) # filter (\<lambda>q. fst q \<noteq> k) ps
      else p # searchParams_set ps k v)"

text \<open>The serialisation \<open>url.toString()\<close>, with the form-urlencoded query.\<close>

definition hex_digit :: "nat \<Rightarrow> char" where
  "hex_digit d = ''0123456789ABCDEF'' ! d"

definition form_unreserved :: "char \<Rightarrow> bool" where
  "form_unreserved c =
     (let n = (of_char c :: nat)
      in (48 \<le> n \<and> n \<le> 57) \<or> (65 \<le> n \<and> n \<le> 90) \<or> (97 \<le> n \<and> n \<le> 122) \<or>
         n \<in> {42, 45, 46, 95})"

definition form_encode_char :: "char \<Rightarrow> string" where
  "form_encode_char c =
     (if form_unreserved c then [c]
      else if c = CHR '' '' then ''+''
      else [CHR ''%'', hex_digit ((of_char c :: nat) div 16), hex_digit ((of_char c :: nat) mod 16)])"

definition form_encode :: "string \<Rightarrow> string" where
  "form_encode s = concat (map form_encode_char s)"

definition search_string :: "(string \<times> string) list \<Rightarrow> string" where
  "search_string ps =
     (if ps = [] then []
      else CHR ''?'' # join ''&'' (map (\<lambda>kv. form_encode (fst kv) @ ''='' @ form_encode (snd kv)) ps))"

definition href :: "URL \<Rightarrow> string" where
  "href u = origin u @ pathname u @ search_string (searchParams u) @ hash u"

datatype HttpMethod = GET | POST | PUT | PATCH | DELETE | HEAD

text \<open>
  A request body as the caller passes it: a \<open>FormData\<close>, a \<open>URLSearchParams\<close>, or
  any other value (a string is \<open>BodyData (JStr s)\<close>).
\<close>

datatype body_arg =
    BodyFormData "(string \<times> string) list"
  | BodyURLSearchParams "(string \<times> string) list"
  | BodyData jsv

text \<open>\<open>RequestInit\<close>. The abort signal and its timer are not modelled.\<close>

record RequestInit =
  init_method :: HttpMethod
  init_headers :: Headers
  init_body :: "body_arg option"

text \<open>
  A \<open>Response\<close>: its status and headers, and what \<open>json()\<close> and \<open>text()\<close> give
  when awaited (a decoded value or text, or a thrown value).
\<close>

record Response =
  resp_status :: int
  resp_headers :: Headers
  resp_json :: "thrown + jsv"
  resp_text :: "thrown + string"

definition ok :: "Response \<Rightarrow> bool" where
  "ok r = (200 \<le> resp_status r \<and> resp_status r \<le> 299)"

section \<open>Interceptors (interceptors.ts)\<close>

record RequestContext =
  ctx_url :: URL
  ctx_init :: RequestInit

record ResponseContext = RequestContext +
  response :: Response

record ErrorContext = RequestContext +
  error :: thrown

text \<open>
  A call into code of the caller (the transport, an interceptor) may throw and may
  change the world outside the client; \<open>'w\<close> is the state of that world.
\<close>

type_synonym ('w, 'a) effect = "'w \<Rightarrow> (thrown + 'a) \<times> 'w"

text \<open>
  What a response interceptor returns: a \<open>Response\<close>, a context (whose
  \<open>response\<close> may be missing), or something falsy.
\<close>

datatype response_result =
    ResultResponse Response
  | ResultContext URL RequestInit "Response option"
  | ResultFalsy

text \<open>
  A request interceptor returns a context or something nullish (\<open>None\<close>); what an
  error interceptor returns is a value nobody reads.
\<close>

type_synonym 'w RequestInterceptor = "RequestContext \<Rightarrow> ('w, RequestContext option) effect"
type_synonym 'w ResponseInterceptor = "ResponseContext \<Rightarrow> ('w, response_result) effect"
type_synonym 'w ErrorInterceptor = "ErrorContext \<Rightarrow> ('w, jsv) effect"

record 'w InterceptorConfig =
  request_interceptors :: "'w RequestInterceptor list option"
  response_interceptors :: "'w ResponseInterceptor list option"
  error_interceptors :: "'w ErrorInterceptor list option"

section \<open>Configuration (config.ts)\<close>

text \<open>
  A field of the raw configuration as it is at run time: the TypeScript types ask for
  a string or a number, and \<open>validateConfig\<close> tests what it really gets
  (\<open>typeof\<close>, \<open>Number.isFinite\<close>). \<open>DObject\<close> is any object or function.
  The retry count and the backoff delay are only compared with 0, and are numbers
  as their type says.
\<close>

datatype dyn = DUndefined | DNull | DBool bool | DNumber jsnum | DString string | DObject





text \<open>
  The value of \<open>config.fetch\<close> or \<open>globalThis.fetch\<close>: nullish, something that is
  no function, or a function.
\<close>

datatype 'f maybe_function = Nullish | NotAFunction | IsFunction 'f

type_synonym 'w fetch_function = "URL \<Rightarrow> RequestInit \<Rightarrow> ('w, Response) effect"






record RetryPolicy =
  maxRetries :: jsnum
  retryDelayMs :: jsnum

record 'w ResolvedClientConfig =
  apiKey :: string
  baseUrl :: string
  timeout :: dyn
  fetch :: "'w fetch_function"
  headers :: "(string \<times> string) list"
  interceptors :: "'w InterceptorConfig"
  debug :: bool
  retry :: RetryPolicy
  userAgent :: "string option"





section \<open>The HTTP client (client.ts)\<close>

text \<open>
  What the client takes from the platform: the constructor \<open>new URL(s)\<close>, the
  function \<open>JSON.stringify\<close> (each gives a result or throws), and whether
  \<open>typeof navigator === 'undefined'\<close>.
\<close>

record platform =
  new_URL :: "string \<Rightarrow> thrown + URL"
  JSON_stringify :: "jsv \<Rightarrow> thrown + string"
  navigator_undefined :: bool

text \<open>
  \<open>RequestOptions\<close>; \<open>None\<close> is a field left \<open>undefined\<close>. The query is the
  list \<open>Object.entries(query)\<close>. The signal and the timeout only feed the abort
  timer, which is not modelled.
\<close>

record RequestOptions =
  opt_query :: "(string \<times> jsv) list option"
  opt_headers :: "(string \<times> string) list option"
  opt_body :: "body_arg option"
  opt_timeout :: "jsnum option"
  idempotent :: "bool option"

record InternalRequestOptions = RequestOptions +
  attempt :: nat

definition DEFAULT_HEADERS :: "(string \<times> string) list" where
  "DEFAULT_HEADERS = [(''Accept'', ''application/json'')]"

text \<open>The body of the loop over \<open>Object.entries(query)\<close> in \<open>buildUrl\<close>.\<close>

definition add_query_item :: "string \<Rightarrow> (string \<times> string) list \<Rightarrow> jsv \<Rightarrow> (string \<times> string) list" where
  "add_query_item k ps item = (if \<not> nullish item then searchParams_append ps k (String_js item) else ps)"

fun add_query_entry :: "(string \<times> string) list \<Rightarrow> string \<times> jsv \<Rightarrow> (string \<times> string) list" where
  "add_query_entry ps (k, JUndefined) = ps"
| "add_query_entry ps (k, JNull) = ps"
| "add_query_entry ps (k, JArr items) = foldl (add_query_item k) ps items"
| "add_query_entry ps (k, v) = searchParams_set ps k (String_js v)"

definition buildUrl ::
  "platform \<Rightarrow> 'w ResolvedClientConfig \<Rightarrow> string \<Rightarrow> (string \<times> jsv) list option \<Rightarrow> thrown + URL" where
  "buildUrl pf config path query =
     (case new_URL pf (baseUrl config) of
        Inl e \<Rightarrow> Inl e
      | Inr base \<Rightarrow>
          (let basePath = strip_trailing_slashes (pathname base);
               normalizedPath = (if startsWith path ''/'' then drop 1 path else path);
               combinedPath = join ''/'' (filter (\<lambda>x. x \<noteq> []) [basePath, normalizedPath]);
               url = base\<lparr>pathname :=
                             collapse_slashes (if combinedPath \<noteq> [] then CHR ''/'' # combinedPath else ''/''),
                          searchParams := [], hash := []\<rparr>
           in Inr (case query of
                     None \<Rightarrow> url
                   | Some entries \<Rightarrow> url\<lparr>searchParams := foldl add_query_entry (searchParams url) entries\<rparr>)))"

definition buildHeaders ::
  "platform \<Rightarrow> 'w ResolvedClientConfig \<Rightarrow> (string \<times> string) list option \<Rightarrow> Headers" where
  "buildHeaders pf config overrideHeaders =
     (let h0 = set_all Map.empty DEFAULT_HEADERS;
          h1 = set_all h0 (headers config);
          h2 = headers_set h1 ''authorization'' (''Bearer '' @ apiKey config);
          h3 = headers_set h2 ''x-mailrify-client'' ''mailrify'';
          h4 = (case userAgent config of
                  None \<Rightarrow> h3
                | Some ua \<Rightarrow> if ua \<noteq> [] \<and> navigator_undefined pf then headers_set h3 ''user-agent'' ua else h3)
      in case overrideHeaders of None \<Rightarrow> h4 | Some ov \<Rightarrow> set_all h4 ov)"

text \<open>\<open>parseResponse\<close>: \<open>JUndefined\<close> is the absent result.\<close>

definition parseResponse :: "Response \<Rightarrow> thrown + jsv" where
  "parseResponse r =
     (if resp_status r = 204 \<or> headers_get (resp_headers r) ''content-length'' = Some ''0''
      then Inr JUndefined
      else
        (let contentType = (case headers_get (resp_headers r) ''content-type'' of None \<Rightarrow> [] | Some c \<Rightarrow> c)
         in if str_includes contentType ''application/json'' then resp_json r
            else (case resp_text r of
                    Inl e \<Rightarrow> Inl e
                  | Inr t \<Rightarrow> Inr (if t \<noteq> [] then JStr t else JUndefined))))"

text \<open>\<open>safeParseError\<close>: whatever is thrown while reading the body gives \<open>undefined\<close>.\<close>

definition safeParseError :: "Response \<Rightarrow> jsv" where
  "safeParseError r =
     (let contentType = (case headers_get (resp_headers r) ''content-type'' of None \<Rightarrow> [] | Some c \<Rightarrow> c)
      in if str_includes contentType ''application/json''
         then (case resp_json r of Inl e \<Rightarrow> JUndefined | Inr v \<Rightarrow> v)
         else (case resp_text r of
                 Inl e \<Rightarrow> JUndefined
               | Inr t \<Rightarrow> if t = [] then JUndefined else JObj [(''message'', JStr t)]))"

text \<open>
  \<open>buildError\<close>. The message handed to a constructor is coerced to a string by
  \<open>Error\<close>.
\<close>

definition buildError :: "Response \<Rightarrow> RequestContext \<Rightarrow> thrown" where
  "buildError r ctx =
     (let payload = safeParseError r;
          requestId = headers_get (resp_headers r) ''x-request-id'';
          baseDetails = \<lparr>opt_status = Some (resp_status r),
                         opt_code = get_prop payload ''code'',
                         opt_details = coalesce (get_prop payload ''details'') payload,
                         opt_requestId = requestId,
                         opt_cause = None,
                         opt_retryAfter = None\<rparr>
      in if resp_status r = 401 \<or> resp_status r = 403
         then AuthError
                (String_js (coalesce (get_prop payload ''message'')
                   (coalesce (get_prop payload ''error'') (JStr ''Unauthorized request.''))))
                baseDetails
         else if resp_status r = 429
         then (let retryAfterHeader = headers_get (resp_headers r) ''retry-after'';
                   retryAfter = (case retryAfterHeader of
                                   None \<Rightarrow> None
                                 | Some hv \<Rightarrow> if hv \<noteq> [] then Some (js_mul (parseInt10 hv) (Finite 1000)) else None)
               in RateLimitError
                    (String_js (coalesce (get_prop payload ''message'') (JStr ''Rate limit exceeded.'')))
                    (baseDetails\<lparr>opt_retryAfter := retryAfter\<rparr>))
         else HTTPError
                (String_js (coalesce (get_prop payload ''message'')
                   (coalesce (get_prop payload ''error'')
                      (JStr (''Request to '' @ pathname (ctx_url ctx) @ '' failed with status '' @
                             int_digits (resp_status r) @ ''.'')))))
                baseDetails)"

definition shouldRetry :: "HttpMethod \<Rightarrow> thrown \<Rightarrow> 'a RequestOptions_scheme \<Rightarrow> nat \<Rightarrow> jsnum \<Rightarrow> bool" where
  "shouldRetry m err options n maxR =
     (if js_ge (Finite (real n)) maxR then False
      else
        (let isIdempotent = (case idempotent options of None \<Rightarrow> (m = GET \<or> m = HEAD) | Some b \<Rightarrow> b)
         in if \<not> isIdempotent then False
            else if instanceof_RateLimitError err then True
            else if instanceof_HTTPError err
            then (case status_of err of None \<Rightarrow> False | Some st \<Rightarrow> 500 \<le> st)
            else if instanceof_MailrifyError err then False
            else True))"

definition getRetryDelay :: "'w ResolvedClientConfig \<Rightarrow> thrown \<Rightarrow> nat \<Rightarrow> jsnum" where
  "getRetryDelay config err n =
     (case (if instanceof_RateLimitError err then retryAfter_of err else None) of
        Some ra \<Rightarrow> if truthy_num ra then ra else js_mul (retryDelayMs (retry config)) (Finite (2 ^ n))
      | None \<Rightarrow> js_mul (retryDelayMs (retry config)) (Finite (2 ^ n)))"

text \<open>
  \<open>delay\<close>: \<open>None\<close> when it returns without suspending, \<open>Some d\<close> when it awaits
  a timer of \<open>d\<close> milliseconds.
\<close>

definition delay :: "jsnum \<Rightarrow> jsnum option" where
  "delay durationMs = (if js_le durationMs (Finite 0) then None else Some durationMs)"

subsection \<open>Interceptor runs\<close>

text \<open>
  An interceptor is handed a copy of the context; contexts are values here, so a
  change an interceptor makes in place to an object it shares with the client is
  not modelled.
\<close>

fun run_request_interceptors ::
  "'w RequestInterceptor list \<Rightarrow> RequestContext \<Rightarrow> ('w, RequestContext) effect" where
  "run_request_interceptors [] next w = (Inr next, w)"
| "run_request_interceptors (i # rest) next w =
     (case i next w of
        (Inl e, w') \<Rightarrow> (Inl e, w')
      | (Inr res, w') \<Rightarrow>
          run_request_interceptors rest (case res of None \<Rightarrow> next | Some c \<Rightarrow> c) w')"

definition runRequestInterceptors ::
  "'w ResolvedClientConfig \<Rightarrow> RequestContext \<Rightarrow> ('w, RequestContext) effect" where
  "runRequestInterceptors config ctx w =
     run_request_interceptors
       (case request_interceptors (interceptors config) of None \<Rightarrow> [] | Some l \<Rightarrow> l) ctx w"

fun run_response_interceptors ::
  "'w ResponseInterceptor list \<Rightarrow> ResponseContext \<Rightarrow> ('w, Response) effect" where
  "run_response_interceptors [] nextContext w = (Inr (response nextContext), w)"
| "run_response_interceptors (i # rest) nextContext w =
     (case i nextContext w of
        (Inl e, w') \<Rightarrow> (Inl e, w')
      | (Inr res, w') \<Rightarrow>
          run_response_interceptors rest
            (case res of
               ResultResponse r \<Rightarrow> nextContext\<lparr>response := r\<rparr>
             | ResultContext u ini ro \<Rightarrow>
                 \<lparr>ctx_url = u, ctx_init = ini,
                  response = (case ro of None \<Rightarrow> response nextContext | Some r \<Rightarrow> r)\<rparr>
             | ResultFalsy \<Rightarrow> nextContext)
            w')"

definition runResponseInterceptors ::
  "'w ResolvedClientConfig \<Rightarrow> RequestContext \<Rightarrow> Response \<Rightarrow> ('w, Response) effect" where
  "runResponseInterceptors config ctx resp w =
     (let l = (case response_interceptors (interceptors config) of None \<Rightarrow> [] | Some l \<Rightarrow> l)
      in if length l = 0 then (Inr resp, w)
         else run_response_interceptors l
                \<lparr>ctx_url = ctx_url ctx, ctx_init = ctx_init ctx, response = resp\<rparr> w)"

fun run_error_interceptors ::
  "'w ErrorInterceptor list \<Rightarrow> RequestContext \<Rightarrow> thrown \<Rightarrow> ('w, unit) effect" where
  "run_error_interceptors [] ctx err w = (Inr (), w)"
| "run_error_interceptors (i # rest) ctx err w =
     (case i \<lparr>ctx_url = ctx_url ctx, ctx_init = ctx_init ctx, error = err\<rparr> w of
        (Inl e, w') \<Rightarrow> (Inl e, w')
      | (Inr res, w') \<Rightarrow> run_error_interceptors rest ctx err w')"

definition runErrorInterceptors ::
  "'w ResolvedClientConfig \<Rightarrow> RequestContext \<Rightarrow> thrown \<Rightarrow> ('w, unit) effect" where
  "runErrorInterceptors config ctx err w =
     run_error_interceptors
       (case error_interceptors (interceptors config) of None \<Rightarrow> [] | Some l \<Rightarrow> l) ctx err w"

subsection \<open>One attempt\<close>

text \<open>
  The body handed to the transport and the headers after it is set: a \<open>FormData\<close>,
  a \<open>URLSearchParams\<close> or a string passes through; any other value that is not
  nullish is encoded as JSON, with a JSON content type unless one is there.
\<close>

fun serialize_body :: "platform \<Rightarrow> Headers \<Rightarrow> body_arg option \<Rightarrow> thrown + Headers \<times> body_arg option" where
  "serialize_body pf h None = Inr (h, None)"
| "serialize_body pf h (Some (BodyData JUndefined)) = Inr (h, None)"
| "serialize_body pf h (Some (BodyData JNull)) = Inr (h, None)"
| "serialize_body pf h (Some (BodyFormData f)) = Inr (h, Some (BodyFormData f))"
| "serialize_body pf h (Some (BodyURLSearchParams q)) = Inr (h, Some (BodyURLSearchParams q))"
| "serialize_body pf h (Some (BodyData (JStr t))) = Inr (h, Some (BodyData (JStr t)))"
| "serialize_body pf h (Some (BodyData v)) =
     (case JSON_stringify pf v of
        Inl e \<Rightarrow> Inl e
      | Inr t \<Rightarrow>
          Inr (if \<not> headers_has h ''content-type'' then headers_set h ''content-type'' ''application/json'' else h,
               Some (BodyData (JStr t))))"

text \<open>
  The \<open>try\<close> block of \<open>dispatch\<close>. Beside its result it gives the value the
  variable \<open>requestContext\<close> holds when the block is left, which the \<open>catch\<close>
  block reads.
\<close>

definition dispatch_try ::
  "'w ResolvedClientConfig \<Rightarrow> RequestContext \<Rightarrow> 'w \<Rightarrow> (thrown + jsv) \<times> RequestContext \<times> 'w" where
  "dispatch_try config ctx0 w =
     (case runRequestInterceptors config ctx0 w of
        (Inl e, w1) \<Rightarrow> (Inl e, ctx0, w1)
      | (Inr requestContext, w1) \<Rightarrow>
          (case fetch config (ctx_url requestContext) (ctx_init requestContext) w1 of
             (Inl e, w2) \<Rightarrow> (Inl e, requestContext, w2)
           | (Inr resp, w2) \<Rightarrow>
               (case runResponseInterceptors config requestContext resp w2 of
                  (Inl e, w3) \<Rightarrow> (Inl e, requestContext, w3)
                | (Inr finalResponse, w3) \<Rightarrow>
                    if \<not> ok finalResponse
                    then (Inl (buildError finalResponse requestContext), requestContext, w3)
                    else (case parseResponse finalResponse of
                            Inl e \<Rightarrow> (Inl e, requestContext, w3)
                          | Inr v \<Rightarrow> (Inr (coalesce v JUndefined), requestContext, w3)))))"

text \<open>
  \<open>dispatch\<close>. The address, the headers and the body are built before the \<open>try\<close>
  block is entered; what is thrown inside the block goes to the error interceptors
  and is thrown again.
\<close>

definition dispatch ::
  "platform \<Rightarrow> 'w ResolvedClientConfig \<Rightarrow> HttpMethod \<Rightarrow> string \<Rightarrow> InternalRequestOptions \<Rightarrow>
   ('w, jsv) effect" where
  "dispatch pf config m path options w =
     (case buildUrl pf config path (opt_query options) of
        Inl e \<Rightarrow> (Inl e, w)
      | Inr url \<Rightarrow>
          (case serialize_body pf (buildHeaders pf config (opt_headers options)) (opt_body options) of
             Inl e \<Rightarrow> (Inl e, w)
           | Inr (hdrs, body) \<Rightarrow>
               (case dispatch_try config
                       \<lparr>ctx_url = url,
                        ctx_init = \<lparr>init_method = m, init_headers = hdrs, init_body = body\<rparr>\<rparr> w of
                  (Inr v, requestContext, w') \<Rightarrow> (Inr v, w')
                | (Inl err, requestContext, w') \<Rightarrow>
                    (case runErrorInterceptors config requestContext err w' of
                       (Inl e', w'') \<Rightarrow> (Inl e', w'')
                     | (Inr u, w'') \<Rightarrow> (Inl err, w'')))))"

subsection \<open>The attempt loop\<close>

text \<open>
  How \<open>request\<close> is left: by the \<open>return\<close> or the \<open>throw\<close> inside the loop, or by
  the \<open>throw\<close> that follows the loop.
\<close>

datatype request_exit = Returned jsv | ThrownInLoop thrown | ThrownAfterLoop thrown


definition with_attempt :: "RequestOptions \<Rightarrow> nat \<Rightarrow> InternalRequestOptions" where
  "with_attempt options n =
     \<lparr>opt_query = opt_query options, opt_headers = opt_headers options, opt_body = opt_body options,
      opt_timeout = opt_timeout options, idempotent = idempotent options, attempt = n\<rparr>"

text \<open>What follows the loop: \<open>lastError\<close> if it is an \<open>Error\<close>, else a wrapper.\<close>

definition after_loop :: "thrown option \<Rightarrow> thrown" where
  "after_loop lastError =
     (case lastError of
        None \<Rightarrow> MailrifyError ''Unknown request failure'' no_options
      | Some e \<Rightarrow>
          if instanceof_Error e then e
          else MailrifyError ''Unknown request failure'' (no_options\<lparr>opt_cause := Some e\<rparr>))"

text \<open>
  The \<open>for\<close> loop of \<open>request\<close>, from the attempt \<open>n\<close> on. The list collects
  what each \<open>delay\<close> did. The loop need not end (\<open>maxRetries\<close> may be
  \<open>Infinity\<close>): \<open>None\<close> is a loop that runs forever. Debug logging is left out.
\<close>

partial_function (option) request_loop ::
  "platform \<Rightarrow> 'w ResolvedClientConfig \<Rightarrow> HttpMethod \<Rightarrow> string \<Rightarrow> RequestOptions \<Rightarrow> jsnum \<Rightarrow>
   nat \<Rightarrow> thrown option \<Rightarrow> jsnum option list \<Rightarrow> 'w \<Rightarrow> (request_exit \<times> jsnum option list \<times> 'w) option" where
  "request_loop pf config m path options maxR n lastError delays w =
     (if js_le (Finite (real n)) maxR
      then (case dispatch pf config m path (with_attempt options n) w of
              (Inr v, w') \<Rightarrow> Some (Returned v, delays, w')
            | (Inl err, w') \<Rightarrow>
                if \<not> shouldRetry m err options n maxR then Some (ThrownInLoop err, delays, w')
                else request_loop pf config m path options maxR (n + 1) (Some err)
                       (delays @ [delay (getRetryDelay config err n)]) w')
      else Some (ThrownAfterLoop (after_loop lastError), delays, w))"

definition retry_budget :: "'w ResolvedClientConfig \<Rightarrow> RequestOptions \<Rightarrow> jsnum" where
  "retry_budget config options =
     (if idempotent options = Some False then Finite 0 else maxRetries (retry config))"

definition request ::
  "platform \<Rightarrow> 'w ResolvedClientConfig \<Rightarrow> HttpMethod \<Rightarrow> string \<Rightarrow> RequestOptions \<Rightarrow>
   'w \<Rightarrow> (request_exit \<times> jsnum option list \<times> 'w) option" where
  "request pf config m path options w =
     request_loop pf config m path options (retry_budget config options) 0 None [] w"


section \<open>The conditions of the specification\<close>

text \<open>
  The failure conditions of configuration resolution, written after the
  specification's words rather than after the tests of \<open>validateConfig\<close>.
\<close>







text \<open>
  A transport function is at hand: the configuration gives a function, or it gives
  nothing and the global \<open>fetch\<close> is a function.
\<close>

fun has_transport :: "'f maybe_function \<Rightarrow> 'f maybe_function \<Rightarrow> bool" where
  "has_transport global_fetch (IsFunction f) = True"
| "has_transport global_fetch NotAFunction = False"
| "has_transport (IsFunction f) Nullish = True"
| "has_transport _ Nullish = False"



section \<open>Example inputs\<close>

text \<open>
  Concrete inputs for the closed theorems below, after the unit tests of the client.
  The world is the log of the calls the client made into the caller's code. The
  example platforms parse one base address each and reject every other string; no
  example sends a body, so their \<open>JSON_stringify\<close> is never called.
\<close>

definition ex_platform :: platform where
  "ex_platform =
     \<lparr>new_URL = (\<lambda>s. if s = ''https://api.example.com''
                      then Inr \<lparr>origin = ''https://api.example.com'', pathname = ''/'', searchParams = [], hash = []\<rparr>
                      else Inl (ForeignError ''TypeError'' ''Invalid URL'')),
      JSON_stringify = (\<lambda>v. Inr (String_js v)),
      navigator_undefined = True\<rparr>"

definition ex_json_response :: "int \<Rightarrow> (string \<times> string) list \<Rightarrow> jsv \<Rightarrow> Response" where
  "ex_json_response st hs v =
     \<lparr>resp_status = st,
      resp_headers = set_all (set_all Map.empty [(''content-type'', ''application/json'')]) hs,
      resp_json = Inr v,
      resp_text = Inr (String_js v)\<rparr>"

text \<open>A transport that fails on its first call and answers 200 from then on.\<close>

definition ex_fetch_flaky :: "string list fetch_function" where
  "ex_fetch_flaky u ini w =
     (if ''fetch'' \<in> set w then Inr (ex_json_response 200 [] (JObj [(''ok'', JBool True)]))
      else Inl (ForeignError ''TypeError'' ''network down''),
      w @ [''fetch''])"

definition ex_config ::
  "string list fetch_function \<Rightarrow> string list InterceptorConfig \<Rightarrow> jsnum \<Rightarrow> string list ResolvedClientConfig" where
  "ex_config f icpt maxR =
     \<lparr>apiKey = ''test-key'', baseUrl = ''https://api.example.com'', timeout = DNumber (Finite 5000),
      fetch = f, headers = [], interceptors = icpt, debug = False,
      retry = \<lparr>maxRetries = maxR, retryDelayMs = Finite 500\<rparr>, userAgent = None\<rparr>"

definition no_interceptors :: "string list InterceptorConfig" where
  "no_interceptors = \<lparr>request_interceptors = None, response_interceptors = None, error_interceptors = None\<rparr>"

definition ex_options :: RequestOptions where
  "ex_options = \<lparr>opt_query = None, opt_headers = None, opt_body = None, opt_timeout = None, idempotent = None\<rparr>"

definition ex_context :: RequestContext where
  "ex_context =
     \<lparr>ctx_url = \<lparr>origin = ''https://api.example.com'', pathname = ''/v1/domains'', searchParams = [], hash = []\<rparr>,
      ctx_init = \<lparr>init_method = GET, init_headers = Map.empty, init_body = None\<rparr>\<rparr>"

text \<open>A 429 response with the given \<open>retry-after\<close> header, and a transport that always answers it.\<close>

definition ex_429 :: "string \<Rightarrow> Response" where
  "ex_429 hv = ex_json_response 429 [(''retry-after'', hv)] (JObj [(''message'', JStr ''Slow down'')])"

definition ex_fetch_429 :: "string list fetch_function" where
  "ex_fetch_429 u ini w = (Inr (ex_429 ''2''), w @ [''fetch''])"

definition ex_rate_limited :: thrown where
  "ex_rate_limited =
     Typed RateLimitError_class ''Slow down'' (Some 429) JUndefined
       (JObj [(''message'', JStr ''Slow down'')]) None (Some (Finite 2000)) None"













section \<open>Properties\<close>

text \<open>
  C10. A \<open>ValidationError\<close> constructed without an explicit status (the options
  omitted, or given without \<open>status\<close>) carries status 400: a validation failure
  raised before any network call still exposes a numeric status.
\<close>

theorem C10_validation_error_status_400:
  "status_of (ValidationError msg no_options) = Some 400 \<and>
   status_of (ValidationError msg (opts\<lparr>opt_status := None\<rparr>)) = Some 400 \<and>
   instanceof_ValidationError (ValidationError msg (opts\<lparr>opt_status := None\<rparr>)) \<and>
   status_of (ValidationError msg (opts\<lparr>opt_status := Some s\<rparr>)) = Some s"
  by (simp add: ValidationError_def construct_def no_options_def)

subsection \<open>Retry policy\<close>

lemma request_loop_step:
  "js_le (Finite (real n)) maxR \<Longrightarrow>
   dispatch pf config m path (with_attempt options n) w = (Inl err, w') \<Longrightarrow>
   request_loop pf config m path options maxR n lastError delays w =
     (if shouldRetry m err options n maxR
      then request_loop pf config m path options maxR (n + 1) (Some err)
             (delays @ [delay (getRetryDelay config err n)]) w'
      else Some (ThrownInLoop err, delays, w'))"
  by (subst request_loop.simps) simp




subsection \<open>Error classification\<close>

lemma buildError_class:
  "err_cls (buildError r ctx) =
     (if resp_status r = 401 \<or> resp_status r = 403 then AuthError_class
      else if resp_status r = 429 then RateLimitError_class else HTTPError_class)"
  by (simp add: buildError_def Let_def AuthError_def RateLimitError_def HTTPError_def construct_def)

lemma buildError_status: "status_of (buildError r ctx) = Some (resp_status r)"
  by (simp add: buildError_def Let_def AuthError_def RateLimitError_def HTTPError_def construct_def)

lemma buildError_retryAfter:
  "retryAfter_of (buildError r ctx) =
     (if resp_status r = 429
      then (case headers_get (resp_headers r) ''retry-after'' of
              None \<Rightarrow> None
            | Some hv \<Rightarrow> if hv = [] then None else Some (js_mul (parseInt10 hv) (Finite 1000)))
      else None)"
  by (simp add: buildError_def Let_def AuthError_def RateLimitError_def HTTPError_def construct_def
      split: option.splits)

lemma buildError_message:
  "err_message (buildError r ctx) =
     String_js (coalesce (get_prop (safeParseError r) ''message'')
       (if resp_status r = 429 \<and> resp_status r \<noteq> 401 \<and> resp_status r \<noteq> 403 then JStr ''Rate limit exceeded.''
        else coalesce (get_prop (safeParseError r) ''error'')
          (JStr (if resp_status r = 401 \<or> resp_status r = 403 then ''Unauthorized request.''
                 else ''Request to '' @ pathname (ctx_url ctx) @ '' failed with status '' @
                    int_digits (resp_status r) @ ''.''))))"
  by (simp add: buildError_def Let_def AuthError_def RateLimitError_def HTTPError_def construct_def)

lemma parseInt10_digits:
  "ds \<noteq> [] \<Longrightarrow> list_all is_digit ds \<Longrightarrow> parseInt10 ds = Finite (real (digits_value ds))"
proof -
  assume ne: "ds \<noteq> []" and dg: "list_all is_digit ds"
  from ne dg have h: "is_digit (hd ds)" by (cases ds) auto
  then have nws: "\<not> is_ws (hd ds)" by (auto simp: is_digit_def is_ws_def)
  from h have nsign: "hd ds \<noteq> CHR ''-''" "hd ds \<noteq> CHR ''+''" by (auto simp: is_digit_def)
  from ne nws have dw: "dropWhile is_ws ds = ds" by (cases ds) auto
  from dg have tw: "takeWhile is_digit ds = ds" by (simp add: list_all_iff)
  from dg have all: "\<forall>x\<in>set ds. is_digit x" by (simp add: list_all_iff)
  show ?thesis unfolding parseInt10_def Let_def dw using ne nsign all
    by (simp add: takeWhile_eq_all_conv [THEN iffD2])
qed

text \<open>
  C2. A 429 response is classified as a \<open>RateLimitError\<close>, and a \<open>retry-after\<close>
  header of whole seconds becomes milliseconds (\<open>2\<close> gives 2000). A header that is
  not numeric, such as an HTTP date, does not leave \<open>retryAfter\<close> absent: the
  error carries \<open>NaN\<close>. The lemmas above give the class, the status, the message
  and the \<open>retryAfter\<close> of every classified error.
\<close>

theorem C2_retry_after_non_numeric:
  "instanceof_RateLimitError (buildError (ex_429 ''Wed, 21 Oct 2015 07:28:00 GMT'') ex_context) \<and>
   retryAfter_of (buildError (ex_429 ''Wed, 21 Oct 2015 07:28:00 GMT'') ex_context) = Some NaN \<and>
   retryAfter_of (buildError (ex_429 ''2'') ex_context) = Some (Finite 2000)"
  by code_simp

subsection \<open>Retry delay\<close>

text \<open>
  C3 (amended). The delay before the next attempt is the \<open>retryAfter\<close> of a
  \<open>RateLimitError\<close> when that value is present and truthy (neither 0 nor
  \<open>NaN\<close>), and the base delay times 2 to the power of the zero-based attempt index
  in every other case; a delay that is zero or negative returns without
  suspending, and the loop awaits exactly this delay before the next attempt.
\<close>

theorem C3_retry_delay:
  "(instanceof_RateLimitError err \<and> retryAfter_of err = Some ra \<and> truthy_num ra \<longrightarrow>
      getRetryDelay config err n = ra) \<and>
   (\<not> (instanceof_RateLimitError err \<and> (\<exists>ra. retryAfter_of err = Some ra \<and> truthy_num ra)) \<longrightarrow>
      getRetryDelay config err n = js_mul (retryDelayMs (retry config)) (Finite (2 ^ n))) \<and>
   (retryDelayMs (retry config) = Finite b \<longrightarrow>
      js_mul (retryDelayMs (retry config)) (Finite (2 ^ n)) = Finite (b * 2 ^ n)) \<and>
   delay (Finite d) = (if d \<le> 0 then None else Some (Finite d)) \<and>
   (delay x = None) = js_le x (Finite 0) \<and>
   (js_le (Finite (real n)) maxR \<and>
    dispatch pf config m path (with_attempt options n) w = (Inl err, w') \<and>
    shouldRetry m err options n maxR \<longrightarrow>
    request_loop pf config m path options maxR n lastError delays w =
      request_loop pf config m path options maxR (n + 1) (Some err)
        (delays @ [delay (getRetryDelay config err n)]) w')"
proof -
  have carried: "instanceof_RateLimitError err \<and> retryAfter_of err = Some ra \<and> truthy_num ra \<longrightarrow>
      getRetryDelay config err n = ra"
    by (simp add: getRetryDelay_def)
  have backoff: "\<not> (instanceof_RateLimitError err \<and> (\<exists>ra. retryAfter_of err = Some ra \<and> truthy_num ra)) \<longrightarrow>
      getRetryDelay config err n = js_mul (retryDelayMs (retry config)) (Finite (2 ^ n))"
    by (auto simp: getRetryDelay_def split: option.splits)
  have exact: "retryDelayMs (retry config) = Finite b \<longrightarrow>
      js_mul (retryDelayMs (retry config)) (Finite (2 ^ n)) = Finite (b * 2 ^ n)"
    by simp
  have d1: "delay (Finite d) = (if d \<le> 0 then None else Some (Finite d))"
    by (simp add: delay_def)
  have d2: "(delay x = None) = js_le x (Finite 0)"
    by (simp add: delay_def)
  have step: "js_le (Finite (real n)) maxR \<and>
    dispatch pf config m path (with_attempt options n) w = (Inl err, w') \<and>
    shouldRetry m err options n maxR \<longrightarrow>
    request_loop pf config m path options maxR n lastError delays w =
      request_loop pf config m path options maxR (n + 1) (Some err)
        (delays @ [delay (getRetryDelay config err n)]) w'"
    using request_loop_step [of n maxR pf config m path options w err w' lastError delays]
    by simp
  show ?thesis
    by (intro conjI) (rule carried backoff exact d1 d2 step)+
qed

text \<open>
  C3 as stated fails: a 429 response with \<open>retry-after: 0\<close> gives a
  \<open>RateLimitError\<close> whose \<open>retryAfter\<close> is present (it is 0), and the delay is
  the backoff of 500 ms, not 0.
\<close>

theorem C3_retry_delay_counterexample:
  "instanceof_RateLimitError (buildError (ex_429 ''0'') ex_context) \<and>
   retryAfter_of (buildError (ex_429 ''0'') ex_context) = Some (Finite 0) \<and>
   getRetryDelay (ex_config ex_fetch_flaky no_interceptors (Finite 1)) (buildError (ex_429 ''0'') ex_context) 0
     = Finite 500 \<and>
   getRetryDelay (ex_config ex_fetch_flaky no_interceptors (Finite 1)) (buildError (ex_429 ''0'') ex_context) 0
     \<noteq> Finite 0"
  by code_simp


lemma ex_dispatch_429:
  "dispatch ex_platform (ex_config ex_fetch_429 no_interceptors (Finite 1)) GET ''/v1/domains''
     (with_attempt ex_options 0) [] = (Inl ex_rate_limited, [''fetch''])"
  by code_simp

theorem C3_retry_delay_witness:
  "getRetryDelay (ex_config ex_fetch_429 no_interceptors (Finite 1)) ex_rate_limited 0 = Finite 2000 \<and>
   request_loop ex_platform (ex_config ex_fetch_429 no_interceptors (Finite 1)) GET ''/v1/domains''
      ex_options (Finite 1) 0 None [] [] =
   request_loop ex_platform (ex_config ex_fetch_429 no_interceptors (Finite 1)) GET ''/v1/domains''
      ex_options (Finite 1) 1 (Some ex_rate_limited) [Some (Finite 2000)] [''fetch''] \<and>
   getRetryDelay (ex_config ex_fetch_flaky no_interceptors (Finite 1))
      (ForeignError ''TypeError'' ''network down'') 1 = Finite 1000 \<and>
   delay (Finite 0) = None"
proof -
  have rl: "instanceof_RateLimitError ex_rate_limited \<and>
      retryAfter_of ex_rate_limited = Some (Finite 2000) \<and> truthy_num (Finite 2000)"
    by (simp add: ex_rate_limited_def)
  have le: "js_le (Finite (real (0::nat))) (Finite 1)" by simp
  have sr: "shouldRetry GET ex_rate_limited ex_options 0 (Finite 1)"
    by (simp add: shouldRetry_def js_ge_def ex_options_def ex_rate_limited_def)
  have nrl: "\<not> (instanceof_RateLimitError (ForeignError ''TypeError'' ''network down'') \<and>
      (\<exists>ra. retryAfter_of (ForeignError ''TypeError'' ''network down'') = Some ra \<and> truthy_num ra))"
    by simp
  have base: "retryDelayMs (retry (ex_config ex_fetch_flaky no_interceptors (Finite 1))) = Finite 500"
    by (simp add: ex_config_def)
  note a = C3_retry_delay [of ex_rate_limited "Finite 2000"
      "ex_config ex_fetch_429 no_interceptors (Finite 1)" 0 500 0 "Finite 0" "Finite 1" ex_platform GET
      "''/v1/domains''" ex_options "[]" "[''fetch'']" None "[]"]
  note b = C3_retry_delay [of "ForeignError ''TypeError'' ''network down''" "Finite 2000"
      "ex_config ex_fetch_flaky no_interceptors (Finite 1)" 1 500 0 "Finite 0" "Finite 1" ex_platform GET
      "''/v1/domains''" ex_options "[]" "[''fetch'']" None "[]"]
  from a rl have c1: "getRetryDelay (ex_config ex_fetch_429 no_interceptors (Finite 1)) ex_rate_limited 0 = Finite 2000"
    by blast
  from a le ex_dispatch_429 sr
  have c2: "request_loop ex_platform (ex_config ex_fetch_429 no_interceptors (Finite 1)) GET ''/v1/domains''
      ex_options (Finite 1) 0 None [] [] =
    request_loop ex_platform (ex_config ex_fetch_429 no_interceptors (Finite 1)) GET ''/v1/domains''
      ex_options (Finite 1) (0 + 1) (Some ex_rate_limited)
      ([] @ [delay (getRetryDelay (ex_config ex_fetch_429 no_interceptors (Finite 1)) ex_rate_limited 0)]) [''fetch'']"
    by blast
  from b nrl base have c3: "getRetryDelay (ex_config ex_fetch_flaky no_interceptors (Finite 1))
      (ForeignError ''TypeError'' ''network down'') 1 = Finite (500 * 2 ^ 1)"
    by simp
  from a have c4: "delay (Finite 0) = (if (0::real) \<le> 0 then None else Some (Finite 0))"
    by blast
  have dl: "delay (Finite 2000) = Some (Finite 2000)" by (simp add: delay_def)
  from c1 c2 c3 c4 dl show ?thesis by simp
qed

subsection \<open>Configuration resolution\<close>







lemma instanceof_ValidationError_new [simp]: "instanceof_ValidationError (ValidationError msg opts)"
  by (simp add: ValidationError_def construct_def)





lemma transport_choice:
  "has_transport gf cf = (\<exists>f. (case cf of Nullish \<Rightarrow> gf | other \<Rightarrow> other) = IsFunction f)"
  by (cases cf; cases gf) auto







subsection \<open>Responses\<close>














subsection \<open>Headers\<close>









subsection \<open>Target address\<close>






















text \<open>The example of the specification: the query \<open>{page: 2, values: ['a', 'b']}\<close>.\<close>

lemma buildUrl_example:
  "map_sum id (\<lambda>u. href u)
     (buildUrl ex_platform (ex_config ex_fetch_flaky no_interceptors (Finite 1)) ''/v1/domains''
        (Some [(''page'', JNum 2), (''values'', JArr [JStr ''a'', JStr ''b''])]))
     = Inr ''https://api.example.com/v1/domains?page=2&values=a&values=b''"
  by code_simp

subsection \<open>Error interceptors\<close>












subsection \<open>The end of the attempt loop\<close>










end
